theory Spec2Isabelle
  imports Complex_Main
begin

section \<open>Values, errors and dictionaries\<close>

text \<open>
  The program is Python. Its records are dictionaries from field names to values of
  several types, so values are a datatype of their own. Python floats are modelled by
  the real numbers (no rounding, no NaN, no infinity), Python integers by \<open>int\<close>, a
  \<open>datetime\<close> by the number of seconds it denotes. A dictionary is an association list
  in insertion order.
\<close>

datatype pyval =
    PNone
  | PBool bool
  | PInt int
  | PFloat real
  | PStr string
  | PList "pyval list"
  | PDict "(string \<times> pyval) list"
  | PDate int

type_synonym pydict = "(string \<times> pyval) list"

text \<open>Every exception the modelled code can raise is a value; \<open>Inl\<close> carries it.\<close>

datatype error =
    ValueError string
  | KeyError string
  | TypeError
  | ZeroDivisionError
  | IndexError

definition bind_err :: "error + 'a \<Rightarrow> ('a \<Rightarrow> error + 'b) \<Rightarrow> error + 'b" where
  "bind_err m f = (case m of Inl e \<Rightarrow> Inl e | Inr x \<Rightarrow> f x)"

text \<open>\<open>d[key]\<close>: the value stored under the key, or \<open>KeyError\<close>.\<close>

definition getitem :: "pydict \<Rightarrow> string \<Rightarrow> error + pyval" where
  "getitem d key = (case map_of d key of None \<Rightarrow> Inl (KeyError key) | Some v \<Rightarrow> Inr v)"

text \<open>\<open>d[key] = v\<close>: an existing key keeps its position, a new key goes last.\<close>

fun dict_set :: "string \<Rightarrow> pyval \<Rightarrow> pydict \<Rightarrow> pydict" where
  "dict_set key v [] = [(key, v)]"
| "dict_set key v (p # ps) = (if fst p = key then (key, v) # ps else p # dict_set key v ps)"

text \<open>\<open>d.update(inp)\<close>: the entries of \<open>inp\<close> are stored one after the other.\<close>

fun dict_update :: "pydict \<Rightarrow> pydict \<Rightarrow> pydict" where
  "dict_update d [] = d"
| "dict_update d (kv # kvs) = dict_update (dict_set (fst kv) (snd kv) d) kvs"

section \<open>The record classes of Core.py\<close>

text \<open>
  \<open>PlayerObj\<close> and \<open>ResultObj\<close> hold a dictionary \<open>params\<close> whose keys are fixed by
  the constructor. The constructors are the two initial dictionaries below.
\<close>

record PlayerObj =
  params :: pydict
  allScores :: "pyval option"

record ResultObj =
  rparams :: pydict

definition PlayerObj_init :: PlayerObj where
  "PlayerObj_init = \<lparr>params =
     [(''player'', PStr ''''),
      (''playerId'', PInt 0),
      (''rankedScore'', PInt 0),
      (''generalScore'', PInt 0),
      (''ppScore'', PInt 0),
      (''wfScore'', PInt 0),
      (''12kScore'', PInt 0),
      (''avgXacc'', PInt 0),
      (''totalPasses'', PInt 0),
      (''universalPasses'', PInt 0),
      (''WFPasses'', PInt 0),
      (''topDiff'', PStr ''''),
      (''top12kDiff'', PStr ''''),
      (''country'', PStr '''')],
    allScores = None\<rparr>"

definition ResultObj_init :: ResultObj where
  "ResultObj_init = \<lparr>rparams =
     [(''player'', PStr ''''),
      (''playerId'', PInt 0),
      (''song'', PStr ''''),
      (''artist'', PStr ''''),
      (''score'', PStr ''''),
      (''pguDiff'', PInt 0),
      (''Xacc'', PInt 0),
      (''speed'', PFloat 1),
      (''isWorldsFirst'', PBool False),
      (''vidLink'', PStr ''''),
      (''feelingRating'', PStr ''''),
      (''date'', PNone),
      (''is12K'', PBool False),
      (''is16K'', PBool False),
      (''isNoHold'', PBool False),
      (''judgements'', PList []),
      (''pdnDiff'', PInt 0),
      (''levelId'', PInt 0),
      (''passId'', PInt 0),
      (''baseScore'', PInt 0),
      (''isDeleted'', PBool False)]\<rparr>"

text \<open>
  The loop of \<open>updateParams\<close> over \<open>inp.keys()\<close>: the first key that is not a key of
  \<open>params\<close> raises \<open>ValueError\<close>. The loop writes nothing.
\<close>

fun check_keys :: "string list \<Rightarrow> string list \<Rightarrow> error + unit" where
  "check_keys paramKeys [] = Inr ()"
| "check_keys paramKeys (key # keys) =
     (if key \<notin> set paramKeys then Inl (ValueError key) else check_keys paramKeys keys)"

text \<open>
  \<open>updateParams\<close> mutates the object, and an exception leaves the object as it is at
  the raise. The model returns the exception raised, if any, together with the object
  after the call.
\<close>

definition PlayerObj_updateParams :: "PlayerObj \<Rightarrow> pydict \<Rightarrow> error option \<times> PlayerObj" where
  "PlayerObj_updateParams self inp =
     (case check_keys (map fst (params self)) (map fst inp) of
        Inl e \<Rightarrow> (Some e, self)
      | Inr _ \<Rightarrow> (None, self\<lparr>params := dict_update (params self) inp\<rparr>))"

definition ResultObj_updateParams :: "ResultObj \<Rightarrow> pydict \<Rightarrow> error option \<times> ResultObj" where
  "ResultObj_updateParams self inp =
     (case check_keys (map fst (rparams self)) (map fst inp) of
        Inl e \<Rightarrow> (Some e, self)
      | Inr _ \<Rightarrow> (None, self\<lparr>rparams := dict_update (rparams self) inp\<rparr>))"

section \<open>Python arithmetic on values\<close>

text \<open>
  \<open>isinstance(v, int)\<close> holds of integers and of booleans (\<open>bool\<close> is a subclass of
  \<open>int\<close>); \<open>type(v) == int\<close> holds of integers only.
\<close>

fun isinstance_int :: "pyval \<Rightarrow> bool" where
  "isinstance_int (PInt i) = True"
| "isinstance_int (PBool b) = True"
| "isinstance_int v = False"

fun type_is_int :: "pyval \<Rightarrow> bool" where
  "type_is_int (PInt i) = True"
| "type_is_int v = False"

fun int_of :: "pyval \<Rightarrow> int" where
  "int_of (PInt i) = i"
| "int_of (PBool b) = (if b then 1 else 0)"
| "int_of v = 0"

text \<open>The number a value denotes in arithmetic, if it is a number.\<close>

fun num_of :: "pyval \<Rightarrow> real option" where
  "num_of (PInt i) = Some (real_of_int i)"
| "num_of (PBool b) = Some (if b then 1 else 0)"
| "num_of (PFloat r) = Some r"
| "num_of v = None"

text \<open>
  \<open>a + b\<close>: two integers give an integer, two numbers of which one is a float give a
  float, strings and lists concatenate, everything else raises \<open>TypeError\<close>.
\<close>

fun py_add :: "pyval \<Rightarrow> pyval \<Rightarrow> error + pyval" where
  "py_add (PStr s) (PStr t) = Inr (PStr (s @ t))"
| "py_add (PList xs) (PList ys) = Inr (PList (xs @ ys))"
| "py_add a b =
     (if isinstance_int a \<and> isinstance_int b then Inr (PInt (int_of a + int_of b))
      else case num_of a of
             None \<Rightarrow> Inl TypeError
           | Some x \<Rightarrow> (case num_of b of None \<Rightarrow> Inl TypeError | Some y \<Rightarrow> Inr (PFloat (x + y))))"

text \<open>\<open>a * c\<close> for a float constant \<open>c\<close>: only a number can be multiplied by a float.\<close>

definition py_mul_float :: "pyval \<Rightarrow> real \<Rightarrow> error + pyval" where
  "py_mul_float a c = (case num_of a of None \<Rightarrow> Inl TypeError | Some x \<Rightarrow> Inr (PFloat (x * c)))"

text \<open>\<open>sum(xs)\<close>: starts from the integer 0 and adds the elements from the left.\<close>

fun py_sum_from :: "pyval \<Rightarrow> pyval list \<Rightarrow> error + pyval" where
  "py_sum_from acc [] = Inr acc"
| "py_sum_from acc (x # xs) = bind_err (py_add acc x) (\<lambda>acc'. py_sum_from acc' xs)"

definition py_sum :: "pyval list \<Rightarrow> error + pyval" where
  "py_sum xs = py_sum_from (PInt 0) xs"

text \<open>A list comprehension whose element expression can raise: the first exception wins.\<close>

fun mapM_err :: "('a \<Rightarrow> error + 'b) \<Rightarrow> 'a list \<Rightarrow> error + 'b list" where
  "mapM_err f [] = Inr []"
| "mapM_err f (x # xs) =
     bind_err (f x) (\<lambda>y. bind_err (mapM_err f xs) (\<lambda>ys. Inr (y # ys)))"

text \<open>\<open>xs[i]\<close> on a list, for an index that is not negative.\<close>

definition list_get :: "'a list \<Rightarrow> nat \<Rightarrow> error + 'a" where
  "list_get xs i = (if i < length xs then Inr (xs ! i) else Inl IndexError)"

section \<open>Utils: the scoring formulas of Core.py\<close>

definition gmConst :: int where "gmConst = 315"
definition start :: int where "start = 1"
definition endC :: int where "endC = 50"
definition startDeduc :: int where "startDeduc = 10"
definition endDeduc :: int where "endDeduc = 50"
definition pwr :: real where "pwr = 0.7"

text \<open>
  \<open>getScoreV2Mtp(tiles, inputs)\<close> for a list of integers \<open>inputs\<close>. \<open>m.floor(tiles /
  gmConst)\<close> is the floor of the quotient, which is integer division; \<open>m.pow\<close> on a
  base that is not negative is \<open>powr\<close>.
\<close>

definition getScoreV2Mtp :: "int \<Rightarrow> int list \<Rightarrow> error + real" where
  "getScoreV2Mtp tiles inputs =
     bind_err (list_get inputs 0) (\<lambda>misses.
       if misses = 0 then Inr 1.1
       else
         let tp = (real_of_int start + real_of_int endC) / 2;
             tpDeduc = (real_of_int startDeduc + real_of_int endDeduc) / 2;
             am = max 0 (misses - tiles div gmConst)
         in if am \<le> 0 then Inr 1
            else if am \<le> start then Inr (1 - real_of_int startDeduc / 100)
            else if real_of_int am \<le> tp then
              (let kOne = ((real_of_int am - real_of_int start) / (tp - real_of_int start)) powr pwr
                            * (tpDeduc - real_of_int startDeduc) / 100
               in Inr (1 - real_of_int startDeduc / 100 - kOne))
            else if am \<le> endC then
              (let kTwo = ((real_of_int endC - real_of_int am) / (real_of_int endC - tp)) powr pwr
                            * (real_of_int endDeduc - tpDeduc) / 100
               in Inr (1 + kTwo - real_of_int endDeduc / 100))
            else Inr (1 - real_of_int endDeduc / 100))"

text \<open>
  The \<open>try\<close> block of \<open>getXacc\<close> for a dictionary \<open>j\<close>: the weighted total, the count,
  and their quotient when the count is positive.
\<close>

definition getXacc_dict_body :: "pydict \<Rightarrow> error + real" where
  "getXacc_dict_body j =
     bind_err (getitem j ''perfect'') (\<lambda>perfect.
     bind_err (getitem j ''ePerfect'') (\<lambda>ePerfect.
     bind_err (getitem j ''lPerfect'') (\<lambda>lPerfect.
     bind_err (py_add ePerfect lPerfect) (\<lambda>s1.
     bind_err (py_mul_float s1 0.75) (\<lambda>t1.
     bind_err (py_add perfect t1) (\<lambda>a1.
     bind_err (getitem j ''earlySingle'') (\<lambda>earlySingle.
     bind_err (getitem j ''lateSingle'') (\<lambda>lateSingle.
     bind_err (py_add earlySingle lateSingle) (\<lambda>s2.
     bind_err (py_mul_float s2 0.4) (\<lambda>t2.
     bind_err (py_add a1 t2) (\<lambda>a2.
     bind_err (getitem j ''earlyDouble'') (\<lambda>earlyDouble.
     bind_err (getitem j ''lateDouble'') (\<lambda>lateDouble.
     bind_err (py_add earlyDouble lateDouble) (\<lambda>s3.
     bind_err (py_mul_float s3 0.2) (\<lambda>t3.
     bind_err (py_add a2 t3) (\<lambda>total.
     bind_err (py_sum [perfect, ePerfect, lPerfect, earlySingle, lateSingle,
                       earlyDouble, lateDouble]) (\<lambda>count.
       case (num_of total, num_of count) of
         (Some t, Some c) \<Rightarrow> Inr (if c > 0 then t / c else 0.95)
       | _ \<Rightarrow> Inl TypeError)))))))))))))))))"

text \<open>\<open>except (KeyError, TypeError, ZeroDivisionError): return 0.95\<close>\<close>

fun getXacc_except :: "error + real \<Rightarrow> error + real" where
  "getXacc_except (Inl (KeyError k)) = Inr 0.95"
| "getXacc_except (Inl TypeError) = Inr 0.95"
| "getXacc_except (Inl ZeroDivisionError) = Inr 0.95"
| "getXacc_except r = r"

text \<open>
  The array path of \<open>getXacc\<close> once every element is an \<open>int\<close>: the seven indexed
  reads, then \<open>sum(judgements)\<close>, then the division.
\<close>

definition getXacc_array :: "int list \<Rightarrow> error + real" where
  "getXacc_array js =
     bind_err (list_get js 3) (\<lambda>j3.
     bind_err (list_get js 2) (\<lambda>j2.
     bind_err (list_get js 4) (\<lambda>j4.
     bind_err (list_get js 1) (\<lambda>j1.
     bind_err (list_get js 5) (\<lambda>j5.
     bind_err (list_get js 0) (\<lambda>j0.
     bind_err (list_get js 6) (\<lambda>j6.
       if sum_list js = 0 then Inl ZeroDivisionError
       else Inr ((real_of_int j3
                  + real_of_int (j2 + j4) * 0.75
                  + real_of_int (j1 + j5) * 0.4
                  + real_of_int (j0 + j6) * 0.2)
                 / real_of_int (sum_list js)))))))))"

text \<open>
  \<open>getXacc(judgements)\<close>. A dictionary takes the guarded path. Anything else is
  iterated: a list by its elements, a string by its characters (none of which is an
  \<open>int\<close>), and a value that cannot be iterated raises \<open>TypeError\<close>.
\<close>

fun getXacc :: "pyval \<Rightarrow> error + real" where
  "getXacc (PDict j) = getXacc_except (getXacc_dict_body j)"
| "getXacc (PList xs) =
     (if \<not> list_all isinstance_int xs then Inr 0.95
      else getXacc_array (map int_of xs))"
| "getXacc (PStr s) = (if s \<noteq> [] then Inr 0.95 else Inl IndexError)"
| "getXacc v = Inl TypeError"

text \<open>
  The part of \<open>getXaccMtp\<close> after \<open>xacc = self.getXacc(inp)\<close>. When none of the three
  tests holds the function falls off its end and returns \<open>None\<close>.
\<close>

definition xaccMtp_of :: "real \<Rightarrow> real option" where
  "xaccMtp_of xacc =
     (let xacc_percentage = xacc * 100
      in if xacc_percentage < 95 then Some 1
         else if xacc_percentage < 100 then Some (- 0.027 / (xacc - 1.0054) + 0.513)
         else if xacc_percentage = 100 then Some 10
         else None)"

definition getXaccMtp :: "pyval \<Rightarrow> error + real option" where
  "getXaccMtp inp = bind_err (getXacc inp) (\<lambda>xacc. Inr (xaccMtp_of xacc))"

text \<open>
  \<open>getSpeedMtp(SPEED, isDesBus)\<close>. \<open>SPEED\<close> is a number or \<open>None\<close>; \<open>not SPEED\<close> holds of
  \<open>None\<close> and of zero, and \<open>None\<close> gives 1 on either path. In the \<open>isDesBus\<close> branch a
  speed below 1 that is not zero matches neither test and falls through to the general
  curve.
\<close>

fun getSpeedMtp :: "real option \<Rightarrow> bool \<Rightarrow> real" where
  "getSpeedMtp None isDesBus = 1"
| "getSpeedMtp (Some SPEED) isDesBus =
     (if isDesBus \<and> (SPEED = 0 \<or> SPEED = 1) then 1
      else if isDesBus \<and> SPEED > 1 then 2 - SPEED
      else if SPEED = 1 then 1
      else if SPEED < 1 then 0
      else if SPEED < 1.1 then - 3.5 * SPEED + 4.5
      else if SPEED < 1.5 then 0.65
      else if SPEED < 2 then (0.7 * SPEED) - 0.4
      else 1)"

section \<open>Charts and passes\<close>

text \<open>
  A chart and a pass are JSON objects read by fixed keys. The fields are typed as the
  catalogue holds them; \<open>judgements\<close> stays a value, since the code inspects its shape;
  \<open>speed\<close> may be \<open>null\<close>; the key \<open>is16K\<close> may be missing; \<open>vidUploadTime\<close> is the time
  that \<open>strptime\<close> reads from the text, \<open>None\<close> when \<open>strptime\<close> or \<open>split\<close> raises.
\<close>

record Chart =
  chart_id :: int
  song :: string
  artist :: string
  diff :: real
  pguDiff :: string
  pdnDiff :: real
  baseScore :: real

record Pass =
  pass_id :: int
  player :: string
  playerId :: int
  levelId :: int
  speed :: "real option"
  judgements :: pyval
  isWorldsFirst :: bool
  is12K :: bool
  is16K :: "bool option"
  isNoHoldTap :: bool
  isDeleted :: bool
  vidUploadTime :: "int option"
  vidLink :: string
  feelingRating :: string

text \<open>The seven reads \<open>judgements['earlyDouble']\<close>, ... of \<open>getScore\<close>, in its order.\<close>

definition judgement_keys :: "string list" where
  "judgement_keys = [''earlyDouble'', ''earlySingle'', ''ePerfect'', ''perfect'',
                      ''lPerfect'', ''lateSingle'', ''lateDouble'']"

fun judgement_inputs :: "pyval \<Rightarrow> error + pyval list" where
  "judgement_inputs (PDict j) = mapM_err (getitem j) judgement_keys"
| "judgement_inputs v = Inl TypeError"

text \<open>
  \<open>getScore(passData, chartData)\<close>. The variable the code calls \<open>legacyDiff\<close> is read
  from the chart's key \<open>diff\<close>. A multiplier \<open>None\<close> makes the product raise
  \<open>TypeError\<close>.
\<close>

definition getScore :: "Pass \<Rightarrow> Chart \<Rightarrow> error + real" where
  "getScore passData chartData =
     (let speed = speed passData;
          legacyDiff = diff chartData
      in bind_err (judgement_inputs (judgements passData)) (\<lambda>inputs.
           let base = baseScore chartData
           in bind_err (getXaccMtp (PList inputs)) (\<lambda>xaccMtp.
                case xaccMtp of
                  None \<Rightarrow> Inl TypeError
                | Some x \<Rightarrow>
                    if legacyDiff = 64
                    then Inr (max (base * x * getSpeedMtp speed True) 1)
                    else Inr (base * x * getSpeedMtp speed False))))"

text \<open>
  Iterating a value, as \<open>[type(i) == int for i in inputs]\<close> does: a dictionary yields
  its keys, which are strings.
\<close>

fun py_iter :: "pyval \<Rightarrow> error + pyval list" where
  "py_iter (PList xs) = Inr xs"
| "py_iter (PDict j) = Inr (map (\<lambda>kv. PStr (fst kv)) j)"
| "py_iter (PStr s) = Inr (map (\<lambda>c. PStr [c]) s)"
| "py_iter v = Inl TypeError"

text \<open>
  The elements of \<open>inputs[1:-1]\<close>, as \<open>sum\<close> iterates them: a list or a string can be
  sliced, a dictionary cannot.
\<close>

fun py_slice_inner :: "pyval \<Rightarrow> error + pyval list" where
  "py_slice_inner (PList xs) = Inr (butlast (tl xs))"
| "py_slice_inner (PStr s) = Inr (map (\<lambda>c. PStr [c]) (butlast (tl s)))"
| "py_slice_inner v = Inl TypeError"

text \<open>The miss-penalty branch of \<open>getScoreV2\<close>, taken when every element is an \<open>int\<close>.\<close>

definition getScoreV2_penalty :: "pyval \<Rightarrow> error + real" where
  "getScoreV2_penalty inputs =
     bind_err (py_slice_inner inputs) (\<lambda>inner.
     bind_err (py_sum inner) (\<lambda>tilecount.
       case inputs of
         PList xs \<Rightarrow> getScoreV2Mtp (int_of tilecount) (map int_of xs)
       | PStr s \<Rightarrow> Inl IndexError
       | _ \<Rightarrow> Inl TypeError))"

definition getScoreV2 :: "Pass \<Rightarrow> Chart \<Rightarrow> error + real" where
  "getScoreV2 passData chartData =
     (let inputs = judgements passData
      in bind_err (getScore passData chartData) (\<lambda>scoreOrig.
         bind_err (py_iter inputs) (\<lambda>elems.
         bind_err (if list_all type_is_int elems
                   then getScoreV2_penalty inputs
                   else Inr 1) (\<lambda>mtp.
           let mtp' = (if isNoHoldTap passData then mtp * 0.9 else mtp)
           in Inr (scoreOrig * mtp')))))"

section \<open>Search.py: reading result records\<close>

text \<open>\<open>ResultObj.__getitem__\<close> and \<open>ResultObj.__setitem__\<close>.\<close>

definition rgetitem :: "ResultObj \<Rightarrow> string \<Rightarrow> error + pyval" where
  "rgetitem x arg = getitem (rparams x) arg"

definition rsetitem :: "ResultObj \<Rightarrow> string \<Rightarrow> pyval \<Rightarrow> ResultObj" where
  "rsetitem x key v = x\<lparr>rparams := dict_set key v (rparams x)\<rparr>"

text \<open>
  The sorts of Search.py compare scores, which are numbers, and dates, which are
  \<open>datetime\<close> values; the loops that drop duplicates compare ids, which are integers.
  A key of another type is outside the model and is reported as \<open>TypeError\<close>.
\<close>

definition as_num :: "pyval \<Rightarrow> error + real" where
  "as_num v = (case num_of v of None \<Rightarrow> Inl TypeError | Some r \<Rightarrow> Inr r)"

fun as_date :: "pyval \<Rightarrow> error + int" where
  "as_date (PDate t) = Inr t"
| "as_date v = Inl TypeError"

fun as_id :: "pyval \<Rightarrow> error + int" where
  "as_id (PInt i) = Inr i"
| "as_id v = Inl TypeError"

text \<open>The truth value of a value in a condition.\<close>

fun truthy :: "pyval \<Rightarrow> bool" where
  "truthy PNone = False"
| "truthy (PBool b) = b"
| "truthy (PInt i) = (i \<noteq> 0)"
| "truthy (PFloat r) = (r \<noteq> 0)"
| "truthy (PStr s) = (s \<noteq> [])"
| "truthy (PList xs) = (xs \<noteq> [])"
| "truthy (PDict j) = (j \<noteq> [])"
| "truthy (PDate t) = True"

text \<open>
  \<open>sorted(xs, key=...)\<close> once the keys \<open>ks\<close> of the elements are computed: Python's sort
  is stable, and so is the insertion sort \<open>sort_key\<close>.
\<close>

definition sorted_by :: "('k::linorder) list \<Rightarrow> 'a list \<Rightarrow> 'a list" where
  "sorted_by ks xs = map snd (sort_key fst (zip ks xs))"

section \<open>Search.py: searchByChart\<close>

text \<open>The catalogue that \<open>initData\<close> hands to the searches.\<close>

record Player =
  player_id :: int
  name :: string
  country :: string
  isBanned :: bool

record DataScraper =
  charts :: "(int \<times> Chart) list"
  passes :: "Pass list"
  players :: "Player list"


text \<open>
  The loop of lines 118 to 123 over the references in \<open>Scores\<close>: a record is kept when
  its player id is not yet in \<open>usedIds\<close>. \<open>heap\<close> holds the records, a reference is an
  index into it.
\<close>

fun dedup_chart :: "ResultObj list \<Rightarrow> nat list \<Rightarrow> int list \<Rightarrow> pydict list
                    \<Rightarrow> error + pydict list" where
  "dedup_chart heap [] usedIds validScores = Inr validScores"
| "dedup_chart heap (score # rest) usedIds validScores =
     bind_err (bind_err (rgetitem (heap ! score) ''playerId'') as_id) (\<lambda>pid.
       if pid \<notin> set usedIds
       then dedup_chart heap rest (usedIds @ [pid]) (validScores @ [rparams (heap ! score)])
       else dedup_chart heap rest usedIds validScores)"

text \<open>
  Lines 108 to 128. The records are objects: \<open>Scores\<close> and \<open>datedScores\<close> are lists of
  references to the same objects, so the flag written through \<open>datedScores[0]\<close> is seen
  through \<open>Scores\<close>. The objects are kept in \<open>heap\<close> in the order of their creation and
  a reference is an index. The \<open>score\<close> keys are computed in the order of creation, the
  \<open>date\<close> keys in the order of \<open>Scores\<close>. The result lists the field maps of the
  records returned.
\<close>

definition searchByChart_stage :: "bool \<Rightarrow> ResultObj list \<Rightarrow> error + pydict list" where
  "searchByChart_stage getDates heap =
     bind_err (mapM_err (\<lambda>x. bind_err (rgetitem x ''score'') as_num) heap) (\<lambda>ks.
       let Scores = rev (sorted_by ks [0..<length heap])
       in bind_err (mapM_err (\<lambda>i. bind_err (rgetitem (heap ! i) ''date'') as_date) Scores)
            (\<lambda>ds.
              let datedScores = sorted_by ds Scores
              in bind_err (list_get datedScores 0) (\<lambda>first.
                   let heap' = heap[first := rsetitem (heap ! first) ''isWorldsFirst'' (PBool True)]
                   in if getDates then Inr (map (\<lambda>i. rparams (heap' ! i)) datedScores)
                      else dedup_chart heap' Scores [] [])))"


section \<open>Search.py: searchByPlayer\<close>

definition pguSort :: "string \<Rightarrow> nat option" where
  "pguSort k = (if k = ''P'' then Some 1 else if k = ''G'' then Some 2
                else if k = ''U'' then Some 3 else None)"

text \<open>The date \<open>datetime(2022, 1, 1)\<close>, in seconds.\<close>

definition fallback_date :: int where
  "fallback_date = 1640995200"

text \<open>
  The record built at lines 193 to 215 for the player \<open>plr\<close>. \<open>Pass["is16K"]\<close> raises
  \<open>KeyError\<close> when the key is missing.
\<close>

definition searchByPlayer_record :: "Player \<Rightarrow> Chart \<Rightarrow> Pass \<Rightarrow> error + ResultObj" where
  "searchByPlayer_record plr chart Pass =
     (let isWorldsFirst = isWorldsFirst Pass;
          date = (case vidUploadTime Pass of Some t \<Rightarrow> t | None \<Rightarrow> fallback_date);
          speed = (case speed Pass of None \<Rightarrow> 1 | Some v \<Rightarrow> if v = 0 then 1 else v)
      in bind_err (getScoreV2 Pass chart) (\<lambda>score.
         bind_err (getXacc (judgements Pass)) (\<lambda>Xacc.
         bind_err (case is16K Pass of None \<Rightarrow> Inl (KeyError ''is16K'') | Some b \<Rightarrow> Inr b)
           (\<lambda>is16K.
           case ResultObj_updateParams ResultObj_init
                  [(''player'', PStr (Pass.player Pass)),
                   (''playerId'', PInt (player_id plr)),
                   (''song'', PStr (song chart)),
                   (''artist'', PStr (artist chart)),
                   (''score'', PFloat score),
                   (''pguDiff'', PStr (pguDiff chart)),
                   (''Xacc'', PFloat Xacc),
                   (''speed'', PFloat speed),
                   (''isWorldsFirst'', PBool isWorldsFirst),
                   (''vidLink'', PStr (vidLink Pass)),
                   (''feelingRating'', PStr (feelingRating Pass)),
                   (''date'', PDate date),
                   (''is12K'', PBool (is12K Pass)),
                   (''is16K'', PBool is16K),
                   (''isNoHold'', PBool (isNoHoldTap Pass)),
                   (''judgements'', judgements Pass),
                   (''pdnDiff'', PFloat (pdnDiff chart)),
                   (''chartId'', PInt (chart_id chart)),
                   (''passId'', PInt (pass_id Pass)),
                   (''baseScore'', PFloat (baseScore chart)),
                   (''isDeleted'', PBool (isDeleted Pass))] of
             (Some e, obj) \<Rightarrow> Inl e
           | (None, obj) \<Rightarrow> Inr obj))))"

text \<open>
  The \<open>try\<close> block of lines 216 to 232, which tracks the top difficulties. Any exception
  in it is swallowed, and each one is raised before the first assignment, so the block
  either runs whole or changes nothing. \<open>py_int\<close> is Python's \<open>int\<close> on a string, \<open>None\<close>
  where it raises.
\<close>

definition track_top ::
  "(string \<Rightarrow> int option) \<Rightarrow> Chart \<Rightarrow> Pass \<Rightarrow> (string \<times> int) \<times> (string \<times> int)
     \<Rightarrow> (string \<times> int) \<times> (string \<times> int)" where
  "track_top py_int chart Pass tops =
     (if isDeleted Pass then tops
      else case pguDiff chart of
             [] \<Rightarrow> tops
           | c # rest \<Rightarrow>
               (case (py_int rest, pguSort (fst (fst tops)), pguSort (fst (snd tops)),
                      pguSort [c]) of
                  (Some num, Some rt, Some r12, Some r) \<Rightarrow>
                    let topDiff = (if rt < r then ([c], num) else fst tops);
                        top12kDiff = (if r12 < r \<and> is12K Pass then ([c], num) else snd tops);
                        topDiff' = (if pguSort (fst topDiff) = Some r \<and> snd topDiff < num
                                    then (fst topDiff, num) else topDiff);
                        top12kDiff' = (if pguSort (fst top12kDiff) = Some r
                                          \<and> snd top12kDiff < num \<and> is12K Pass
                                       then (fst top12kDiff, num) else top12kDiff)
                    in (topDiff', top12kDiff')
                | _ \<Rightarrow> tops))"

text \<open>The state of the loop over \<open>playerPasses\<close>, lines 169 to 232.\<close>

record PlayerLoop =
  Scores :: "ResultObj list"
  firstPasses :: int
  tops :: "(string \<times> int) \<times> (string \<times> int)"

fun searchByPlayer_loop ::
  "(string \<Rightarrow> int option) \<Rightarrow> DataScraper \<Rightarrow> Player \<Rightarrow> Pass list \<Rightarrow> PlayerLoop
     \<Rightarrow> error + PlayerLoop" where
  "searchByPlayer_loop py_int data plr [] st = Inr st"
| "searchByPlayer_loop py_int data plr (Pass # rest) st =
     (case map_of (charts data) (levelId Pass) of
        None \<Rightarrow> searchByPlayer_loop py_int data plr rest st
      | Some chart \<Rightarrow>
          let st1 = (if isWorldsFirst Pass then st\<lparr>firstPasses := firstPasses st + 1\<rparr> else st)
          in bind_err (searchByPlayer_record plr chart Pass) (\<lambda>obj.
               searchByPlayer_loop py_int data plr rest
                 (st1\<lparr>Scores := Scores st1 @ [obj],
                      tops := track_top py_int chart Pass (tops st1)\<rparr>)))"

text \<open>\<open>Score["pguDiff"][0] == "U"\<close>\<close>

fun first_is_U :: "pyval \<Rightarrow> error + bool" where
  "first_is_U (PStr []) = Inl IndexError"
| "first_is_U (PStr (c # s)) = Inr (c = CHR ''U'')"
| "first_is_U (PList []) = Inl IndexError"
| "first_is_U (PList (x # xs)) = Inr (x = PStr ''U'')"
| "first_is_U (PDict j) = Inl (KeyError ''0'')"
| "first_is_U v = Inl TypeError"

text \<open>
  The loop of lines 240 to 248 over the sorted records: a record is kept when its chart
  id is not yet in \<open>usedIds\<close> and, in the 12K-only mode, it is a 12K record.
\<close>

record Dedup =
  usedIds :: "int list"
  validScores :: "ResultObj list"
  uPasses :: int
  XaccList :: "pyval list"

fun dedup_player :: "bool \<Rightarrow> ResultObj list \<Rightarrow> Dedup \<Rightarrow> error + Dedup" where
  "dedup_player TwvKOnly [] st = Inr st"
| "dedup_player TwvKOnly (Score # rest) st =
     bind_err (bind_err (rgetitem Score ''chartId'') as_id) (\<lambda>cid.
     bind_err (if cid \<notin> set (usedIds st)
               then (if \<not> TwvKOnly then Inr True
                     else bind_err (rgetitem Score ''is12K'') (\<lambda>b. Inr (truthy b)))
               else Inr False) (\<lambda>keep.
       if keep
       then bind_err (bind_err (rgetitem Score ''pguDiff'') first_is_U) (\<lambda>u.
            bind_err (rgetitem Score ''Xacc'') (\<lambda>xacc.
              dedup_player TwvKOnly rest
                \<lparr>usedIds = usedIds st @ [cid],
                 validScores = validScores st @ [Score],
                 uPasses = (if u then uPasses st + 1 else uPasses st),
                 XaccList = XaccList st @ [xacc]\<rparr>))
       else dedup_player TwvKOnly rest st))"

text \<open>Lines 239 to 248: the sort by score, descending, and the loop above.\<close>

definition searchByPlayer_dedup :: "bool \<Rightarrow> ResultObj list \<Rightarrow> error + Dedup" where
  "searchByPlayer_dedup TwvKOnly Scores0 =
     bind_err (mapM_err (\<lambda>x. bind_err (rgetitem x ''score'') as_num) Scores0) (\<lambda>ks.
       dedup_player TwvKOnly (rev (sorted_by ks Scores0))
         \<lparr>usedIds = [], validScores = [], uPasses = 0, XaccList = []\<rparr>)"

section \<open>Core.py: the aggregates\<close>

text \<open>
  \<open>getRankedScore(scores, top=20)\<close>: the sum of \<open>0.9 ** n * scores[n]\<close> over the first
  twenty positions at most, starting from the integer 0.
\<close>

fun ranked_loop :: "nat \<Rightarrow> pyval list \<Rightarrow> pyval \<Rightarrow> error + pyval" where
  "ranked_loop n [] rankedScore = Inr rankedScore"
| "ranked_loop n (s # ss) rankedScore =
     bind_err (py_mul_float s (0.9 ^ n)) (\<lambda>t.
     bind_err (py_add rankedScore t) (\<lambda>r. ranked_loop (Suc n) ss r))"

definition getRankedScore :: "pyval list \<Rightarrow> error + pyval" where
  "getRankedScore scores = ranked_loop 0 (take 20 scores) (PInt 0)"

text \<open>\<open>calculateScores(scores)\<close>: one pass over the records, four sums.\<close>

record Results =
  generalScore :: pyval
  ppScore :: pyval
  wfScore :: pyval
  TvwKScore :: pyval
  tvwkCounter :: nat

definition calculateScores_step :: "ResultObj \<Rightarrow> Results \<Rightarrow> error + Results" where
  "calculateScores_step score results =
     bind_err (rgetitem score ''score'') (\<lambda>s1.
     bind_err (py_add (generalScore results) s1) (\<lambda>general.
     bind_err (rgetitem score ''Xacc'') (\<lambda>xacc.
     bind_err (if num_of xacc = Some 1
               then bind_err (rgetitem score ''score'') (py_add (ppScore results))
               else Inr (ppScore results)) (\<lambda>pp.
     bind_err (rgetitem score ''isWorldsFirst'') (\<lambda>w.
     bind_err (if truthy w
               then bind_err (rgetitem score ''baseScore'') (py_add (wfScore results))
               else Inr (wfScore results)) (\<lambda>wf.
     bind_err (rgetitem score ''is12K'') (\<lambda>k.
       if truthy k \<and> tvwkCounter results < 20
       then bind_err (rgetitem score ''score'') (\<lambda>s2.
            bind_err (py_mul_float s2 (0.9 ^ tvwkCounter results)) (\<lambda>t.
            bind_err (py_add (TvwKScore results) t) (\<lambda>tv.
              Inr \<lparr>generalScore = general, ppScore = pp, wfScore = wf, TvwKScore = tv,
                   tvwkCounter = tvwkCounter results + 1\<rparr>)))
       else Inr \<lparr>generalScore = general, ppScore = pp, wfScore = wf,
                 TvwKScore = TvwKScore results, tvwkCounter = tvwkCounter results\<rparr>)))))))"

fun calculateScores_loop :: "ResultObj list \<Rightarrow> Results \<Rightarrow> error + Results" where
  "calculateScores_loop [] results = Inr results"
| "calculateScores_loop (score # scores) results =
     bind_err (calculateScores_step score results) (calculateScores_loop scores)"

definition calculateScores :: "ResultObj list \<Rightarrow> error + Results" where
  "calculateScores scores =
     calculateScores_loop scores
       \<lparr>generalScore = PInt 0, ppScore = PInt 0, wfScore = PInt 0, TvwKScore = PInt 0,
        tvwkCounter = 0\<rparr>"

section \<open>Search.py: the player summary\<close>

text \<open>\<open>str(n)\<close> for an integer: its decimal digits, with a minus sign when negative.\<close>

function str_nat :: "nat \<Rightarrow> string" where
  "str_nat n = (if n < 10 then [char_of (48 + n)]
                else str_nat (n div 10) @ [char_of (48 + n mod 10)])"
  by pat_completeness auto
termination
  by (relation "measure id") auto

definition str_int :: "int \<Rightarrow> string" where
  "str_int i = (if i < 0 then CHR ''-'' # str_nat (nat (- i)) else str_nat (nat i))"

text \<open>\<open>a / n\<close> for the length \<open>n\<close> of a list.\<close>

definition py_div_len :: "pyval \<Rightarrow> nat \<Rightarrow> error + pyval" where
  "py_div_len a n =
     (case num_of a of
        None \<Rightarrow> Inl TypeError
      | Some x \<Rightarrow> if n = 0 then Inl ZeroDivisionError else Inr (PFloat (x / real n)))"

text \<open>\<open>PlayerObj.get\<close>: a copy of the parameters, with the scores when there are any.\<close>

definition PlayerObj_get :: "PlayerObj \<Rightarrow> pydict" where
  "PlayerObj_get self =
     (case allScores self of
        None \<Rightarrow> params self
      | Some v \<Rightarrow> if truthy v then dict_set ''allScores'' v (params self) else params self)"

text \<open>\<open>[Score for Score in validScores if not Score["isDeleted"]]\<close>\<close>

fun notDeleted :: "ResultObj list \<Rightarrow> error + ResultObj list" where
  "notDeleted [] = Inr []"
| "notDeleted (Score # rest) =
     bind_err (rgetitem Score ''isDeleted'') (\<lambda>d.
     bind_err (notDeleted rest) (\<lambda>keep. Inr (if truthy d then keep else Score # keep)))"

text \<open>
  \<open>searchByPlayer(player, data, TwvKOnly, ppOnly, showCharts)\<close> for a catalogue that is
  given. The timings it also returns are left out.
\<close>

definition searchByPlayer ::
  "(string \<Rightarrow> int option) \<Rightarrow> Player \<Rightarrow> DataScraper \<Rightarrow> bool \<Rightarrow> bool \<Rightarrow> error + pydict" where
  "searchByPlayer py_int plr data TwvKOnly showCharts =
     (let playerPasses = filter (\<lambda>Pass. playerId Pass = player_id plr) (passes data)
      in bind_err (searchByPlayer_loop py_int data plr playerPasses
                     \<lparr>Scores = [], firstPasses = 0, tops = ((''P'', 1), (''P'', 1))\<rparr>) (\<lambda>lp.
         bind_err (searchByPlayer_dedup TwvKOnly (Scores lp)) (\<lambda>dd.
         bind_err (notDeleted (validScores dd)) (\<lambda>notDeletedScores.
         bind_err (mapM_err (\<lambda>Score. rgetitem Score ''score'') notDeletedScores) (\<lambda>scs.
         bind_err (getRankedScore scs) (\<lambda>rankedScore.
         bind_err (calculateScores notDeletedScores) (\<lambda>res.
           let topDiff = fst (fst (tops lp)) @ str_int (snd (fst (tops lp)));
               top12kDiff = fst (snd (tops lp)) @ str_int (snd (snd (tops lp)));
               scoresNew = map rparams (validScores dd)
           in bind_err (if XaccList dd \<noteq> []
                        then bind_err (py_sum (take 20 (XaccList dd))) (\<lambda>sm.
                               py_div_len sm (length (take 20 (XaccList dd))))
                        else Inr (PInt 0)) (\<lambda>avgAcc.
                case PlayerObj_updateParams PlayerObj_init
                       [(''player'', PStr (name plr)),
                        (''playerId'', PInt (player_id plr)),
                        (''rankedScore'', rankedScore),
                        (''generalScore'', generalScore res),
                        (''ppScore'', ppScore res),
                        (''wfScore'', wfScore res),
                        (''12kScore'', TvwKScore res),
                        (''avgXacc'', avgAcc),
                        (''totalPasses'', PInt (int (length (validScores dd)))),
                        (''universalPasses'', PInt (uPasses dd)),
                        (''WFPasses'', PInt (firstPasses lp)),
                        (''topDiff'', PStr topDiff),
                        (''top12kDiff'', PStr top12kDiff),
                        (''country'', PStr (country plr))] of
                  (Some e, obj) \<Rightarrow> Inl e
                | (None, obj) \<Rightarrow>
                    Inr (PlayerObj_get
                           (if showCharts
                            then obj\<lparr>allScores := Some (PList (map PDict scoresNew))\<rparr>
                            else obj))))))))))"

section \<open>Search.py: the player leaderboard\<close>

text \<open>
  Python compares two lists by the first position where they differ under \<open>==\<close>, and
  there by \<open><\<close>; a list that is a proper prefix of the other is the smaller one.
  Numbers compare by value, strings by their characters, two dates by time; any other
  pair raises \<open>TypeError\<close> under \<open><\<close>.
\<close>

fun str_lt :: "string \<Rightarrow> string \<Rightarrow> bool" where
  "str_lt [] [] = False"
| "str_lt [] (y # ys) = True"
| "str_lt (x # xs) [] = False"
| "str_lt (x # xs) (y # ys) =
     (if x = y then str_lt xs ys else (of_char x :: nat) < of_char y)"

definition py_eq :: "pyval \<Rightarrow> pyval \<Rightarrow> bool" where
  "py_eq a b =
     (case (num_of a, num_of b) of
        (Some x, Some y) \<Rightarrow> x = y
      | _ \<Rightarrow> a = b)"

fun py_lt :: "pyval \<Rightarrow> pyval \<Rightarrow> error + bool" where
  "py_lt (PStr s) (PStr t) = Inr (str_lt s t)"
| "py_lt (PDate s) (PDate t) = Inr (s < t)"
| "py_lt a b =
     (case (num_of a, num_of b) of
        (Some x, Some y) \<Rightarrow> Inr (x < y)
      | _ \<Rightarrow> Inl TypeError)"

fun key_lt :: "pyval list \<Rightarrow> pyval list \<Rightarrow> error + bool" where
  "key_lt [] [] = Inr False"
| "key_lt [] (y # ys) = Inr True"
| "key_lt (x # xs) [] = Inr False"
| "key_lt (x # xs) (y # ys) = (if py_eq x y then key_lt xs ys else py_lt x y)"

definition allPassSortPriority :: "string list" where
  "allPassSortPriority =
     [''rankedScore'', ''generalScore'', ''universalPasses'', ''avgXacc'', ''ppScore'',
      ''12kScore'', ''WFPasses'', ''totalPasses'', ''topDiff'', ''top12kDiff'', ''player'']"

text \<open>
  \<open>priority = util.allPassSortPriority.copy(); priority.remove(sortBy); sortCriteria =
  [sortBy] + priority\<close>. \<open>remove\<close> raises \<open>ValueError\<close> when the name is not in the list.
\<close>

definition sortCriteria :: "string \<Rightarrow> error + string list" where
  "sortCriteria sortBy =
     (if sortBy \<notin> set allPassSortPriority then Inl (ValueError sortBy)
      else Inr (sortBy # remove1 sortBy allPassSortPriority))"

text \<open>The key of a player summary: \<open>[x[criteria] for criteria in sortCriteria]\<close>.\<close>

definition sort_key_of :: "string list \<Rightarrow> pydict \<Rightarrow> error + pyval list" where
  "sort_key_of criteria x = mapM_err (getitem x) criteria"

text \<open>
  The stable sort of the summaries by their keys: each element is put before the first
  element whose key is not smaller, starting from the right end of the list.
\<close>

fun insert_by_key :: "pyval list \<times> pydict \<Rightarrow> (pyval list \<times> pydict) list
                       \<Rightarrow> error + (pyval list \<times> pydict) list" where
  "insert_by_key x [] = Inr [x]"
| "insert_by_key x (y # ys) =
     bind_err (key_lt (fst y) (fst x)) (\<lambda>b.
       if b then bind_err (insert_by_key x ys) (\<lambda>zs. Inr (y # zs))
       else Inr (x # y # ys))"

fun sort_by_key :: "(pyval list \<times> pydict) list \<Rightarrow> error + (pyval list \<times> pydict) list" where
  "sort_by_key [] = Inr []"
| "sort_by_key (x # xs) = bind_err (sort_by_key xs) (insert_by_key x)"

text \<open>Lines 336 to 342: the sort of the leaderboard.\<close>

definition leaderboard_sort :: "string \<Rightarrow> bool \<Rightarrow> pydict list \<Rightarrow> error + pydict list" where
  "leaderboard_sort sortBy reverse playerLeaderboard =
     bind_err (sortCriteria sortBy) (\<lambda>criteria.
     bind_err (mapM_err (sort_key_of criteria) playerLeaderboard) (\<lambda>ks.
     bind_err (sort_by_key (zip ks playerLeaderboard)) (\<lambda>sorted.
       let result = map snd sorted
       in Inr (if reverse then rev result else result))))"

text \<open>The loop of lines 318 to 327 over the players.\<close>

fun searchAllPlayers_loop ::
  "(string \<Rightarrow> int option) \<Rightarrow> DataScraper \<Rightarrow> bool \<Rightarrow> bool \<Rightarrow> Player list \<Rightarrow> pydict list
     \<Rightarrow> error + pydict list" where
  "searchAllPlayers_loop py_int data disableCharts TwvKOnly [] playerLeaderboard =
     Inr playerLeaderboard"
| "searchAllPlayers_loop py_int data disableCharts TwvKOnly (plr # rest) playerLeaderboard =
     (if isBanned plr
      then searchAllPlayers_loop py_int data disableCharts TwvKOnly rest playerLeaderboard
      else bind_err (searchByPlayer py_int plr data TwvKOnly True) (\<lambda>search.
           bind_err (getitem search ''avgXacc'') (\<lambda>avg.
             if truthy avg
             then searchAllPlayers_loop py_int data disableCharts TwvKOnly rest
                    (playerLeaderboard
                       @ [if disableCharts then dict_set ''allScores'' (PStr []) search
                          else search])
             else searchAllPlayers_loop py_int data disableCharts TwvKOnly rest
                    playerLeaderboard)))"

definition searchAllPlayers ::
  "(string \<Rightarrow> int option) \<Rightarrow> DataScraper \<Rightarrow> string \<Rightarrow> bool \<Rightarrow> bool \<Rightarrow> bool
     \<Rightarrow> error + pydict list" where
  "searchAllPlayers py_int data sortBy disableCharts TwvKOnly reverse =
     bind_err (searchAllPlayers_loop py_int data disableCharts TwvKOnly (players data) [])
       (leaderboard_sort sortBy reverse)"

section \<open>The speed curve in the specification's words\<close>



section \<open>Sample data\<close>

text \<open>
  The chart and the pass of the end-to-end example: base score 1600, difficulty 21.15,
  speed 1, fifteen early doubles and two thousand perfects. \<open>examplePass\<close> holds the
  judgements under their seven names, as the passes of the catalogue do and as
  \<open>getScore\<close> reads them; \<open>examplePassArray\<close> holds them as the array of the sample at
  the end of Core.py.
\<close>

definition exampleChart :: Chart where
  "exampleChart = \<lparr>chart_id = 63, song = ''Gender and a Metal Bat'', artist = ''Frums'',
     diff = 21.15, pguDiff = ''U7'', pdnDiff = 21.15, baseScore = 1600\<rparr>"

definition exampleJudgements :: pydict where
  "exampleJudgements =
     [(''earlyDouble'', PInt 15), (''earlySingle'', PInt 0), (''ePerfect'', PInt 0),
      (''perfect'', PInt 2000), (''lPerfect'', PInt 0), (''lateSingle'', PInt 0),
      (''lateDouble'', PInt 0)]"

definition examplePass :: Pass where
  "examplePass = \<lparr>pass_id = 1, player = ''A'', playerId = 7, levelId = 63, speed = Some 1,
     judgements = PDict exampleJudgements,
     isWorldsFirst = False, is12K = False, is16K = Some False, isNoHoldTap = False,
     isDeleted = False, vidUploadTime = Some 100, vidLink = '''', feelingRating = ''''\<rparr>"

definition examplePassArray :: Pass where
  "examplePassArray = examplePass\<lparr>judgements :=
     PList [PInt 15, PInt 0, PInt 0, PInt 2000, PInt 0, PInt 0, PInt 0]\<rparr>"

text \<open>A pass whose seven judgement counts are all zero.\<close>

definition zeroJudgements :: pydict where
  "zeroJudgements =
     [(''earlyDouble'', PInt 0), (''earlySingle'', PInt 0), (''ePerfect'', PInt 0),
      (''perfect'', PInt 0), (''lPerfect'', PInt 0), (''lateSingle'', PInt 0),
      (''lateDouble'', PInt 0)]"

definition zeroPass :: Pass where
  "zeroPass = examplePass\<lparr>judgements := PDict zeroJudgements\<rparr>"








text \<open>
  Result records built by \<open>ResultObj().updateParams\<close> from known keys. \<open>rec1\<close> and
  \<open>rec2\<close> are two passes of player 7, the earlier with the lower score; \<open>rec3\<close> is a
  pass of player 8; \<open>tieA\<close> and \<open>tieB\<close> are two passes of player 7 with one score.
\<close>

definition resultOf :: "pydict \<Rightarrow> ResultObj" where
  "resultOf inp = snd (ResultObj_updateParams ResultObj_init inp)"

definition rec1 :: ResultObj where
  "rec1 = resultOf [(''playerId'', PInt 7), (''score'', PFloat 10), (''date'', PDate 100),
                    (''passId'', PInt 1), (''pguDiff'', PStr ''U7''), (''Xacc'', PFloat 0.96)]"

definition rec2 :: ResultObj where
  "rec2 = resultOf [(''playerId'', PInt 7), (''score'', PFloat 20), (''date'', PDate 200),
                    (''passId'', PInt 2), (''pguDiff'', PStr ''U7''), (''Xacc'', PFloat 0.98)]"

definition rec3 :: ResultObj where
  "rec3 = resultOf [(''playerId'', PInt 8), (''score'', PFloat 15), (''date'', PDate 150),
                    (''passId'', PInt 3), (''pguDiff'', PStr ''U7''), (''Xacc'', PFloat 0.97)]"

definition tieA :: ResultObj where
  "tieA = resultOf [(''playerId'', PInt 7), (''score'', PFloat 50), (''date'', PDate 100),
                    (''passId'', PInt 1), (''pguDiff'', PStr ''U7''), (''Xacc'', PFloat 0.99)]"

definition tieB :: ResultObj where
  "tieB = resultOf [(''playerId'', PInt 7), (''score'', PFloat 50), (''date'', PDate 200),
                    (''passId'', PInt 2), (''pguDiff'', PStr ''U7''), (''Xacc'', PFloat 0.99)]"



section \<open>Auxiliary notions for the proofs\<close>








text \<open>
  The number, the id and the date that a record holds under a key, for a record that
  holds one.
\<close>

definition num_at :: "ResultObj \<Rightarrow> string \<Rightarrow> real" where
  "num_at x k = (case bind_err (rgetitem x k) as_num of Inr r \<Rightarrow> r | Inl e \<Rightarrow> 0)"

definition id_at :: "ResultObj \<Rightarrow> string \<Rightarrow> int" where
  "id_at x k = (case bind_err (rgetitem x k) as_id of Inr i \<Rightarrow> i | Inl e \<Rightarrow> 0)"

definition date_at :: "ResultObj \<Rightarrow> string \<Rightarrow> int" where
  "date_at x k = (case bind_err (rgetitem x k) as_date of Inr t \<Rightarrow> t | Inl e \<Rightarrow> 0)"

text \<open>A computation returns when it raises nothing.\<close>

definition returns :: "error + 'a \<Rightarrow> bool" where
  "returns m = (case m of Inr v \<Rightarrow> True | Inl e \<Rightarrow> False)"










section \<open>Record updates\<close>

lemma check_keys_raises:
  "(\<exists>e. check_keys pk ks = Inl e) \<longleftrightarrow> (\<exists>k \<in> set ks. k \<notin> set pk)"
  by (induction ks) auto

lemma check_keys_ok:
  "check_keys pk ks = Inr u \<longleftrightarrow> set ks \<subseteq> set pk"
  by (induction ks) auto

lemma check_keys_first:
  "check_keys pk ks = Inl e \<Longrightarrow> \<exists>k \<in> set ks. k \<notin> set pk \<and> e = ValueError k"
  by (induction ks) (auto split: if_splits)

lemma dict_set_keys:
  "key \<in> fst ` set d \<Longrightarrow> map fst (dict_set key v d) = map fst d"
  by (induction d) auto

lemma dict_set_map_of:
  "map_of (dict_set key v d) = (map_of d)(key \<mapsto> v)"
  by (induction d) (auto simp: fun_eq_iff)

lemma dict_update_keys:
  "fst ` set inp \<subseteq> fst ` set d \<Longrightarrow> map fst (dict_update d inp) = map fst d"
proof (induction inp arbitrary: d)
  case Nil
  then show ?case by simp
next
  case (Cons kv kvs)
  have k: "map fst (dict_set (fst kv) (snd kv) d) = map fst d"
    using Cons.prems by (simp add: dict_set_keys)
  have "fst ` set kvs \<subseteq> fst ` set (dict_set (fst kv) (snd kv) d)"
    using Cons.prems k by (metis list.set_map set_subset_Cons image_mono subset_trans)
  then have "map fst (dict_update (dict_set (fst kv) (snd kv) d) kvs) = map fst d"
    using Cons.IH k by simp
  then show ?case by simp
qed

lemma dict_update_map_of:
  "distinct (map fst inp) \<Longrightarrow> map_of (dict_update d inp) = map_of d ++ map_of inp"
proof (induction inp arbitrary: d)
  case Nil
  then show ?case by simp
next
  case (Cons kv kvs)
  obtain k v where kv: "kv = (k, v)" by (cases kv)
  have nk: "map_of kvs k = None"
    using Cons.prems kv by (simp add: map_of_eq_None_iff)
  have dk: "distinct (map fst kvs)"
    using Cons.prems by simp
  have "map_of (dict_update d (kv # kvs)) = map_of (dict_update (dict_set k v d) kvs)"
    by (simp add: kv)
  also have "\<dots> = map_of (dict_set k v d) ++ map_of kvs"
    using dk by (rule Cons.IH)
  also have "\<dots> = (map_of d)(k \<mapsto> v) ++ map_of kvs"
    by (simp only: dict_set_map_of)
  also have "\<dots> = map_of d ++ map_of (kv # kvs)"
    using nk by (auto simp: kv fun_eq_iff map_add_def split: option.splits)
  finally show ?case .
qed

text \<open>
  C10. \<open>updateParams\<close> of either class raises exactly when the update map has a key
  that is not a key of the record's parameters; the exception is \<open>ValueError\<close>, and the
  object is then exactly what it was. When every key is known, nothing is raised, the
  key list of the parameters stays as it was, and a lookup in the new parameters gives
  the update map's value where it has one and the old value elsewhere.
\<close>

theorem updateParams_fail_fast:
  "((fst (ResultObj_updateParams r inp) \<noteq> None) \<longleftrightarrow>
      (\<exists>k \<in> set (map fst inp). k \<notin> set (map fst (rparams r))))
   \<and> ((fst (PlayerObj_updateParams p inp) \<noteq> None) \<longleftrightarrow>
      (\<exists>k \<in> set (map fst inp). k \<notin> set (map fst (params p))))
   \<and> (\<forall>e. fst (ResultObj_updateParams r inp) = Some e \<longrightarrow>
        snd (ResultObj_updateParams r inp) = r
        \<and> (\<exists>k \<in> set (map fst inp). k \<notin> set (map fst (rparams r)) \<and> e = ValueError k))
   \<and> (\<forall>e. fst (PlayerObj_updateParams p inp) = Some e \<longrightarrow>
        snd (PlayerObj_updateParams p inp) = p
        \<and> (\<exists>k \<in> set (map fst inp). k \<notin> set (map fst (params p)) \<and> e = ValueError k))
   \<and> (fst (ResultObj_updateParams r inp) = None \<longrightarrow>
        map fst (rparams (snd (ResultObj_updateParams r inp))) = map fst (rparams r)
        \<and> (distinct (map fst inp) \<longrightarrow>
             map_of (rparams (snd (ResultObj_updateParams r inp)))
               = map_of (rparams r) ++ map_of inp))
   \<and> (fst (PlayerObj_updateParams p inp) = None \<longrightarrow>
        map fst (params (snd (PlayerObj_updateParams p inp))) = map fst (params p)
        \<and> allScores (snd (PlayerObj_updateParams p inp)) = allScores p
        \<and> (distinct (map fst inp) \<longrightarrow>
             map_of (params (snd (PlayerObj_updateParams p inp)))
               = map_of (params p) ++ map_of inp))"
proof -
  have r1: "(fst (ResultObj_updateParams r inp) \<noteq> None) \<longleftrightarrow>
      (\<exists>k \<in> set (map fst inp). k \<notin> set (map fst (rparams r)))"
    using check_keys_raises [of "map fst (rparams r)" "map fst inp"]
    by (auto simp: ResultObj_updateParams_def split: sum.splits)
  have p1: "(fst (PlayerObj_updateParams p inp) \<noteq> None) \<longleftrightarrow>
      (\<exists>k \<in> set (map fst inp). k \<notin> set (map fst (params p)))"
    using check_keys_raises [of "map fst (params p)" "map fst inp"]
    by (auto simp: PlayerObj_updateParams_def split: sum.splits)
  have r2: "\<forall>e. fst (ResultObj_updateParams r inp) = Some e \<longrightarrow>
        snd (ResultObj_updateParams r inp) = r
        \<and> (\<exists>k \<in> set (map fst inp). k \<notin> set (map fst (rparams r)) \<and> e = ValueError k)"
    using check_keys_first [of "map fst (rparams r)" "map fst inp"]
    by (auto simp: ResultObj_updateParams_def split: sum.splits)
  have p2: "\<forall>e. fst (PlayerObj_updateParams p inp) = Some e \<longrightarrow>
        snd (PlayerObj_updateParams p inp) = p
        \<and> (\<exists>k \<in> set (map fst inp). k \<notin> set (map fst (params p)) \<and> e = ValueError k)"
    using check_keys_first [of "map fst (params p)" "map fst inp"]
    by (auto simp: PlayerObj_updateParams_def split: sum.splits)
  have r3: "fst (ResultObj_updateParams r inp) = None \<longrightarrow>
        map fst (rparams (snd (ResultObj_updateParams r inp))) = map fst (rparams r)
        \<and> (distinct (map fst inp) \<longrightarrow>
             map_of (rparams (snd (ResultObj_updateParams r inp)))
               = map_of (rparams r) ++ map_of inp)"
  proof
    assume "fst (ResultObj_updateParams r inp) = None"
    then obtain u where ok: "check_keys (map fst (rparams r)) (map fst inp) = Inr u"
      by (auto simp: ResultObj_updateParams_def split: sum.splits)
    then have sub: "fst ` set inp \<subseteq> fst ` set (rparams r)"
      by (simp add: check_keys_ok)
    show "map fst (rparams (snd (ResultObj_updateParams r inp))) = map fst (rparams r)
        \<and> (distinct (map fst inp) \<longrightarrow>
             map_of (rparams (snd (ResultObj_updateParams r inp)))
               = map_of (rparams r) ++ map_of inp)"
      using ok sub
      by (simp add: ResultObj_updateParams_def dict_update_keys dict_update_map_of)
  qed
  have p3: "fst (PlayerObj_updateParams p inp) = None \<longrightarrow>
        map fst (params (snd (PlayerObj_updateParams p inp))) = map fst (params p)
        \<and> allScores (snd (PlayerObj_updateParams p inp)) = allScores p
        \<and> (distinct (map fst inp) \<longrightarrow>
             map_of (params (snd (PlayerObj_updateParams p inp)))
               = map_of (params p) ++ map_of inp)"
  proof
    assume "fst (PlayerObj_updateParams p inp) = None"
    then obtain u where ok: "check_keys (map fst (params p)) (map fst inp) = Inr u"
      by (auto simp: PlayerObj_updateParams_def split: sum.splits)
    then have sub: "fst ` set inp \<subseteq> fst ` set (params p)"
      by (simp add: check_keys_ok)
    show "map fst (params (snd (PlayerObj_updateParams p inp))) = map fst (params p)
        \<and> allScores (snd (PlayerObj_updateParams p inp)) = allScores p
        \<and> (distinct (map fst inp) \<longrightarrow>
             map_of (params (snd (PlayerObj_updateParams p inp)))
               = map_of (params p) ++ map_of inp)"
      using ok sub
      by (simp add: PlayerObj_updateParams_def dict_update_keys dict_update_map_of)
  qed
  from r1 p1 r2 p2 r3 p3 show ?thesis by blast
qed

theorem updateParams_fail_fast_witness:
  "fst (ResultObj_updateParams ResultObj_init [(''chartId'', PInt 5)])
     = Some (ValueError ''chartId'')
   \<and> snd (ResultObj_updateParams ResultObj_init [(''chartId'', PInt 5)]) = ResultObj_init
   \<and> fst (PlayerObj_updateParams PlayerObj_init [(''chartId'', PInt 5)])
     = Some (ValueError ''chartId'')
   \<and> snd (PlayerObj_updateParams PlayerObj_init [(''chartId'', PInt 5)]) = PlayerObj_init
   \<and> fst (ResultObj_updateParams ResultObj_init [(''player'', PStr ''A'')]) = None
   \<and> fst (PlayerObj_updateParams PlayerObj_init [(''player'', PStr ''A'')]) = None
   \<and> distinct (map fst [(''player'', PStr ''A'')])
   \<and> map_of (rparams (snd (ResultObj_updateParams ResultObj_init [(''player'', PStr ''A'')])))
       = map_of (rparams ResultObj_init) ++ map_of [(''player'', PStr ''A'')]
   \<and> map_of (params (snd (PlayerObj_updateParams PlayerObj_init [(''player'', PStr ''A'')])))
       = map_of (params PlayerObj_init) ++ map_of [(''player'', PStr ''A'')]"
proof -
  have r1: "fst (ResultObj_updateParams ResultObj_init [(''chartId'', PInt 5)])
     = Some (ValueError ''chartId'')"
    by (simp add: ResultObj_updateParams_def ResultObj_init_def)
  have p1: "fst (PlayerObj_updateParams PlayerObj_init [(''chartId'', PInt 5)])
     = Some (ValueError ''chartId'')"
    by (simp add: PlayerObj_updateParams_def PlayerObj_init_def)
  have r2: "fst (ResultObj_updateParams ResultObj_init [(''player'', PStr ''A'')]) = None"
    by (simp add: ResultObj_updateParams_def ResultObj_init_def)
  have p2: "fst (PlayerObj_updateParams PlayerObj_init [(''player'', PStr ''A'')]) = None"
    by (simp add: PlayerObj_updateParams_def PlayerObj_init_def)
  have d: "distinct (map fst [(''player'', PStr ''A'')])" by simp
  note bad = updateParams_fail_fast [of ResultObj_init "[(''chartId'', PInt 5)]" PlayerObj_init]
  note good = updateParams_fail_fast [of ResultObj_init "[(''player'', PStr ''A'')]" PlayerObj_init]
  have a: "snd (ResultObj_updateParams ResultObj_init [(''chartId'', PInt 5)]) = ResultObj_init"
    using bad r1 by blast
  have b: "snd (PlayerObj_updateParams PlayerObj_init [(''chartId'', PInt 5)]) = PlayerObj_init"
    using bad p1 by blast
  have c: "map_of (rparams (snd (ResultObj_updateParams ResultObj_init [(''player'', PStr ''A'')])))
       = map_of (rparams ResultObj_init) ++ map_of [(''player'', PStr ''A'')]"
    using good r2 d by blast
  have e: "map_of (params (snd (PlayerObj_updateParams PlayerObj_init [(''player'', PStr ''A'')])))
       = map_of (params PlayerObj_init) ++ map_of [(''player'', PStr ''A'')]"
    using good p2 d by blast
  from r1 p1 r2 p2 d a b c e show ?thesis by blast
qed

section \<open>The accuracy multiplier\<close>

lemma bind_err_simps:
  "bind_err (Inl e) f = Inl e"
  "bind_err (Inr x) f = f x"
  by (simp_all add: bind_err_def)

lemma xacc_below: "x < 0.95 \<Longrightarrow> xaccMtp_of x = Some 1"
  by (simp add: xaccMtp_of_def)

lemma xacc_mid:
  "0.95 \<le> x \<Longrightarrow> x < 1 \<Longrightarrow> xaccMtp_of x = Some (- 0.027 / (x - 1.0054) + 0.513)"
  by (simp add: xaccMtp_of_def)

lemma curve_mono:
  fixes x y :: real
  assumes "x \<le> y" "y < 1"
  shows "- 0.027 / (x - 1.0054) + 0.513 \<le> - 0.027 / (y - 1.0054) + 0.513"
proof -
  have py: "0 < 1.0054 - y" using assms by simp
  have le: "1.0054 - y \<le> 1.0054 - x" using assms by simp
  have "0.027 / (1.0054 - x) \<le> 0.027 / (1.0054 - y)"
    using py le by (intro divide_left_mono) (auto intro: mult_pos_pos)
  moreover have "- 0.027 / (x - 1.0054) = 0.027 / (1.0054 - x)"
    by (metis minus_diff_eq minus_divide_divide)
  moreover have "- 0.027 / (y - 1.0054) = 0.027 / (1.0054 - y)"
    by (metis minus_diff_eq minus_divide_divide)
  ultimately show ?thesis by simp
qed

lemma curve_below_10:
  fixes x :: real
  assumes "x < 1"
  shows "- 0.027 / (x - 1.0054) + 0.513 < 10"
proof -
  have px: "0 < 1.0054 - x" using assms by simp
  have "- 0.027 / (x - 1.0054) = 0.027 / (1.0054 - x)"
    by (metis minus_diff_eq minus_divide_divide)
  moreover have "0.027 / (1.0054 - x) < 5"
    using px assms by (simp add: divide_less_eq)
  ultimately show ?thesis by simp
qed

text \<open>
  C7. The accuracy multiplier is 1 for every accuracy below 0.95; on the interval from
  0.95 up to, but not including, 1 it has a value and a greater accuracy never has a
  smaller one; at accuracy 1 it is 10, and 10 is its value at no other accuracy.
\<close>

theorem xaccMtp_shape:
  "(\<forall>x. x < 0.95 \<longrightarrow> xaccMtp_of x = Some 1)
   \<and> (\<forall>x y. 0.95 \<le> x \<and> x \<le> y \<and> y < 1 \<longrightarrow>
         (\<exists>a b. xaccMtp_of x = Some a \<and> xaccMtp_of y = Some b \<and> a \<le> b))
   \<and> xaccMtp_of 1 = Some 10
   \<and> (\<forall>x. xaccMtp_of x = Some 10 \<longrightarrow> x = 1)"
proof -
  have a: "\<forall>x. x < 0.95 \<longrightarrow> xaccMtp_of x = Some 1"
    by (simp add: xacc_below)
  have b: "\<forall>x y. 0.95 \<le> x \<and> x \<le> y \<and> y < 1 \<longrightarrow>
         (\<exists>a b. xaccMtp_of x = Some a \<and> xaccMtp_of y = Some b \<and> a \<le> b)"
  proof (intro allI impI)
    fix x y :: real
    assume h: "0.95 \<le> x \<and> x \<le> y \<and> y < 1"
    then have "xaccMtp_of x = Some (- 0.027 / (x - 1.0054) + 0.513)"
      and "xaccMtp_of y = Some (- 0.027 / (y - 1.0054) + 0.513)"
      by (simp_all add: xacc_mid)
    moreover have "- 0.027 / (x - 1.0054) + 0.513 \<le> - 0.027 / (y - 1.0054) + 0.513"
      using h curve_mono [of x y] by blast
    ultimately show "\<exists>a b. xaccMtp_of x = Some a \<and> xaccMtp_of y = Some b \<and> a \<le> b"
      by blast
  qed
  have c: "xaccMtp_of 1 = Some 10"
    by (simp add: xaccMtp_of_def)
  have d: "\<forall>x. xaccMtp_of x = Some 10 \<longrightarrow> x = 1"
  proof (intro allI impI)
    fix x :: real
    assume h: "xaccMtp_of x = Some 10"
    show "x = 1"
    proof (rule ccontr)
      assume n: "x \<noteq> 1"
      show False
      proof (cases "x < 1")
        case True
        have lt: "- 0.027 / (x - 1.0054) + 0.513 < 10" using True by (rule curve_below_10)
        show False
        proof (cases "x < 0.95")
          case True
          then have "xaccMtp_of x = Some 1" by (rule xacc_below)
          then show False using h by simp
        next
          case False
          then have "xaccMtp_of x = Some (- 0.027 / (x - 1.0054) + 0.513)"
            using \<open>x < 1\<close> by (intro xacc_mid) simp_all
          then have "- 0.027 / (x - 1.0054) + 0.513 = 10" using h by simp
          then show False using lt by linarith
        qed
      next
        case False
        then have "1 < x" using n by simp
        then show False using h by (simp add: xaccMtp_of_def)
      qed
    qed
  qed
  from a b c d show ?thesis by blast
qed

theorem xaccMtp_shape_witness:
  "(0.9::real) < 0.95 \<and> xaccMtp_of 0.9 = Some 1
   \<and> (0.95::real) \<le> 0.96 \<and> (0.96::real) \<le> 0.99 \<and> (0.99::real) < 1
   \<and> (\<exists>a b. xaccMtp_of 0.96 = Some a \<and> xaccMtp_of 0.99 = Some b \<and> a \<le> b)
   \<and> xaccMtp_of 1 = Some 10 \<and> (1::real) = 1"
proof -
  have h1: "(0.9::real) < 0.95" by simp
  have h2: "(0.95::real) \<le> 0.96 \<and> (0.96::real) \<le> 0.99 \<and> (0.99::real) < 1" by simp
  have a: "xaccMtp_of 0.9 = Some 1"
    using xaccMtp_shape h1 by blast
  have b: "\<exists>a b. xaccMtp_of 0.96 = Some a \<and> xaccMtp_of 0.99 = Some b \<and> a \<le> b"
    using xaccMtp_shape h2 by blast
  have c: "xaccMtp_of 1 = Some 10"
    using xaccMtp_shape by blast
  from h1 h2 a b c show ?thesis by simp
qed

section \<open>The score of a pass\<close>


lemma example_inputs:
  "judgement_inputs (judgements examplePass) =
     Inr [PInt 15, PInt 0, PInt 0, PInt 2000, PInt 0, PInt 0, PInt 0]"
  by (simp add: examplePass_def exampleJudgements_def judgement_keys_def getitem_def
      bind_err_simps)

lemma example_xaccMtp:
  "getXaccMtp (PList [PInt 15, PInt 0, PInt 0, PInt 2000, PInt 0, PInt 0, PInt 0]) =
     Inr (Some (- 0.027 / (2003 / 2015 - 1.0054) + 0.513))"
  by (simp add: getXaccMtp_def getXacc_array_def list_get_def bind_err_simps xaccMtp_of_def)




section \<open>The second score\<close>

lemma judgement_inputs_nonempty:
  "judgement_inputs (PDict j) = Inr inputs \<Longrightarrow> j \<noteq> []"
  by (auto simp: judgement_keys_def getitem_def bind_err_def)

lemma dict_keys_not_int:
  "j \<noteq> [] \<Longrightarrow> \<not> list_all type_is_int (map (\<lambda>kv. PStr (fst kv)) j)"
  by (cases j) simp_all

lemma getScore_ok_dict:
  assumes "getScore p c = Inr s" and "judgements p = PDict j"
  shows "j \<noteq> []"
proof -
  obtain inputs where "judgement_inputs (judgements p) = Inr inputs"
    using assms(1)
    by (cases "judgement_inputs (judgements p)") (simp_all add: getScore_def bind_err_simps)
  then show ?thesis using assms(2) judgement_inputs_nonempty by simp
qed

lemma example_getScore:
  "getScore examplePass exampleChart =
     Inr (1600 * (- 0.027 / (2003 / 2015 - 1.0054) + 0.513))"
  by (simp add: getScore_def example_inputs example_xaccMtp bind_err_simps)
     (simp add: examplePass_def exampleChart_def)

text \<open>
  C8. For a pass whose judgements are the mapping from the seven names to the counts,
  \<open>getScoreV2\<close> applies no miss penalty: it raises what \<open>getScore\<close> raises, and
  otherwise returns the value of \<open>getScore\<close> times 0.9 when the pass is a no-hold-tap
  pass and times 1 when it is not.
\<close>

theorem getScoreV2_dict_no_penalty:
  assumes "judgements p = PDict j"
  shows "getScoreV2 p c =
           bind_err (getScore p c) (\<lambda>s. Inr (s * (if isNoHoldTap p then 0.9 else 1)))"
proof (cases "getScore p c")
  case (Inl e)
  then show ?thesis by (simp add: getScoreV2_def bind_err_simps)
next
  case (Inr s)
  then have "j \<noteq> []" using assms by (rule getScore_ok_dict)
  then have "\<not> list_all type_is_int (map (\<lambda>kv. PStr (fst kv)) j)"
    by (rule dict_keys_not_int)
  then show ?thesis
    using Inr assms by (simp add: getScoreV2_def bind_err_simps)
qed

theorem getScoreV2_dict_no_penalty_witness:
  "judgements (examplePass\<lparr>isNoHoldTap := True\<rparr>) = PDict exampleJudgements
   \<and> getScoreV2 (examplePass\<lparr>isNoHoldTap := True\<rparr>) exampleChart =
       Inr (1600 * (- 0.027 / (2003 / 2015 - 1.0054) + 0.513) * 0.9)"
proof -
  have j: "judgements (examplePass\<lparr>isNoHoldTap := True\<rparr>) = PDict exampleJudgements"
    by (simp add: examplePass_def)
  have g: "getScore (examplePass\<lparr>isNoHoldTap := True\<rparr>) exampleChart =
     Inr (1600 * (- 0.027 / (2003 / 2015 - 1.0054) + 0.513))"
    using example_getScore by (simp add: getScore_def)
  show ?thesis
    using getScoreV2_dict_no_penalty [OF j, of exampleChart] j g
    by (simp add: bind_err_simps)
qed

text \<open>
  C2. On the pass and the chart of the end-to-end example \<open>getScoreV2\<close> returns the
  unpenalised score, which lies between 4625 and 4626 and so is more than 0.5 away from
  3740.9; with the judgements held as an array, \<open>getScore\<close> and \<open>getScoreV2\<close> raise
  \<open>TypeError\<close>.
\<close>

theorem getScoreV2_example:
  "getScoreV2 examplePass exampleChart =
     Inr (1600 * (- 0.027 / (2003 / 2015 - 1.0054) + 0.513))
   \<and> (4625::real) < 1600 * (- 0.027 / (2003 / 2015 - 1.0054) + 0.513)
   \<and> 1600 * (- 0.027 / (2003 / 2015 - 1.0054) + 0.513) < (4626::real)
   \<and> getScore examplePassArray exampleChart = Inl TypeError
   \<and> getScoreV2 examplePassArray exampleChart = Inl TypeError"
proof -
  have a: "getScoreV2 examplePass exampleChart =
     Inr (1600 * (- 0.027 / (2003 / 2015 - 1.0054) + 0.513))"
    by (simp add: getScoreV2_def example_getScore bind_err_simps)
       (simp add: examplePass_def exampleJudgements_def bind_err_simps)
  have b: "getScore examplePassArray exampleChart = Inl TypeError"
    by (simp add: getScore_def examplePassArray_def bind_err_simps)
  have c: "getScoreV2 examplePassArray exampleChart = Inl TypeError"
    by (simp add: getScoreV2_def b bind_err_simps)
  from a b c show ?thesis by simp
qed

section \<open>Accuracy\<close>

text \<open>
  C4. On the array of seven zeros \<open>getXacc\<close> raises \<open>ZeroDivisionError\<close>, and so does
  \<open>getScore\<close> on a pass whose seven counts are zero, since it hands \<open>getXacc\<close> the
  array; on the mapping of the seven names to zero \<open>getXacc\<close> returns 0.95.
\<close>

theorem getXacc_zero_array:
  "getXacc (PList [PInt 0, PInt 0, PInt 0, PInt 0, PInt 0, PInt 0, PInt 0])
     = Inl ZeroDivisionError
   \<and> getXacc (PDict zeroJudgements) = Inr 0.95
   \<and> getScore zeroPass exampleChart = Inl ZeroDivisionError"
proof -
  have a: "getXacc (PList [PInt 0, PInt 0, PInt 0, PInt 0, PInt 0, PInt 0, PInt 0])
     = Inl ZeroDivisionError"
    by (simp add: getXacc_array_def list_get_def bind_err_simps)
  have b: "getXacc (PDict zeroJudgements) = Inr 0.95"
    by (simp add: zeroJudgements_def getXacc_dict_body_def getitem_def bind_err_simps
        py_mul_float_def py_sum_def)
  have i: "judgement_inputs (judgements zeroPass) =
     Inr [PInt 0, PInt 0, PInt 0, PInt 0, PInt 0, PInt 0, PInt 0]"
    by (simp add: zeroPass_def zeroJudgements_def judgement_keys_def getitem_def
        bind_err_simps)
  have x: "getXaccMtp (PList [PInt 0, PInt 0, PInt 0, PInt 0, PInt 0, PInt 0, PInt 0])
     = Inl ZeroDivisionError"
    by (simp add: getXaccMtp_def getXacc_array_def list_get_def bind_err_simps)
  have c: "getScore zeroPass exampleChart = Inl ZeroDivisionError"
    by (simp add: getScore_def i x bind_err_simps)
  from a b c show ?thesis by simp
qed

section \<open>The searches on a catalogue with a resolved pass\<close>

























section \<open>The order of the player leaderboard\<close>































section \<open>Sorting, duplicates and the world-first mark\<close>


lemma sort_key_pairs_set:
  "\<forall>p \<in> set (sort_key fst (map (\<lambda>x. (f x, x)) xs)). fst p = f (snd p)"
  by auto








































lemmas rec_defs = rec1_def rec2_def rec3_def tieA_def tieB_def resultOf_def
  ResultObj_updateParams_def ResultObj_init_def

lemmas read_defs = rgetitem_def getitem_def as_num_def bind_err_simps returns_def
  num_at_def id_at_def date_at_def


lemma c5_cex_stage:
  "searchByChart_stage False [rec1, rec2] = Inr [rparams rec2]"
  by (simp add: searchByChart_stage_def sorted_by_def list_get_def rsetitem_def
      rec_defs read_defs)

lemma c3_cex_stage:
  "searchByChart_stage False [tieA, tieB] = Inr [rparams tieB]"
  by (simp add: searchByChart_stage_def sorted_by_def list_get_def rsetitem_def
      rec_defs read_defs)

lemma c3_cex_player:
  "searchByPlayer_dedup False [rsetitem tieA ''chartId'' (PInt 63), rsetitem tieB ''chartId'' (PInt 63)]
     = Inr \<lparr>usedIds = [63], validScores = [rsetitem tieB ''chartId'' (PInt 63)], uPasses = 1,
            XaccList = [PFloat 0.99]\<rparr>"
  by (simp add: searchByPlayer_dedup_def sorted_by_def rsetitem_def
      rec_defs read_defs)






end
